theory Spec2Isabelle
  imports Complex_Main "HOL-Library.Word"
begin

section \<open>Windowed transfer aggregation over a labelled edge cursor (tsr2.cpp)\<close>

text \<open>
  The procedure \<^verbatim>\<open>Process\<close> of \<^verbatim>\<open>tsr2.cpp\<close> reads three integers from a
  JSON request, looks an account up in a graph store, and walks the account's outgoing
  and incoming \<^verbatim>\<open>transfer\<close> edges through \<^verbatim>\<open>LabeledEdgeIterator\<close>, a
  label filter over the store's raw edge cursor.

  Conventions of the embedding.
  \<^item> \<^verbatim>\<open>int64_t\<close> timestamps, identifiers and counts are \<open>int\<close>: the code only
    compares timestamps, and a count is bounded by the number of edges stored.
  \<^item> \<^verbatim>\<open>uint16_t\<close> label identifiers are \<open>16 word\<close>.
  \<^item> \<^verbatim>\<open>double\<close> amounts are idealised as \<open>real\<close>: no NaN, no infinities and
    no rounding error of \<^verbatim>\<open>+\<close>, \<^verbatim>\<open>*\<close> and \<^verbatim>\<open>/\<close>. On binary doubles
    \<^verbatim>\<open>sum += amount\<close> and \<^verbatim>\<open>std::round(x * 1000.0) / 1000\<close> differ from their
    exact counterparts (an amount read as 0.0045 is emitted as 0.005), so nothing is
    stated here about how the emitted values round the accumulated ones. The properties
    below use of the arithmetic only what holds on doubles as well: which edges enter an
    aggregate, that the running maximum never drops below 0, that 0 is rounded to 0, and
    the exact small integers of Scenario 1.
  \<^item> A C++ exception that leaves \<^verbatim>\<open>Process\<close> is the outcome \<open>Thrown\<close>.
\<close>

subsection \<open>Edges and the store\<close>

text \<open>
  An edge as the procedure sees it: the label identifier and the temporal key of its
  \<^verbatim>\<open>EdgeUid\<close> (the store orders the edges of a vertex by these), and the two
  properties read with \<^verbatim>\<open>GetField\<close>. Every edge is taken to carry an integer
  \<^verbatim>\<open>timestamp\<close> and a floating-point \<^verbatim>\<open>amount\<close>, as the schema of the
  \<^verbatim>\<open>transfer\<close> label prescribes.
\<close>

record edge =
  lid :: "16 word"
  tid :: int
  timestamp :: int
  amount :: real

text \<open>
  The store, read-only: the unique index (label, field, value) to vertex identifier, the
  edge labels declared in the schema, and per vertex the outgoing and the incoming edges
  in storage order.
\<close>

record GraphDB =
  unique_index :: "string \<Rightarrow> string \<Rightarrow> int \<rightharpoonup> nat"
  edge_label_ids :: "string \<rightharpoonup> nat"
  out_edges :: "nat \<Rightarrow> edge list"
  in_edges :: "nat \<Rightarrow> edge list"

datatype store_error = VertexNotFound | LabelNotFound | InvalidIterator

text \<open>The calls \<^verbatim>\<open>Process\<close> issues against the store, in the order issued.\<close>

datatype store_call =
    Call_CreateReadTxn
  | Call_GetVertexByUniqueIndex string string int
  | Call_GetVertexIterator
  | Call_Goto nat
  | Call_GetEdgeLabelId string
  | Call_GetOutEdgeIterator nat "16 word" int
  | Call_GetInEdgeIterator nat "16 word" int

text \<open>
  Modelled from the spec: \<^verbatim>\<open>Transaction::GetVertexByUniqueIndex\<close> of the storage
  engine (lgraph, not part of this repository), "lookup-vertex-by-unique-index(label,
  field, value) \<rightarrow> vertex-or-NotFound".
\<close>

definition GetVertexByUniqueIndex :: "GraphDB \<Rightarrow> string \<Rightarrow> string \<Rightarrow> int \<Rightarrow> store_error + nat" where
  "GetVertexByUniqueIndex db label field v =
     (case unique_index db label field v of
        None \<Rightarrow> Inl VertexNotFound
      | Some vid \<Rightarrow> Inr vid)"

text \<open>
  Modelled from the spec: \<^verbatim>\<open>Transaction::GetEdgeLabelId\<close> of the storage engine,
  "resolve-edge-type-id(name) \<rightarrow> id-or-NotFound". The engine returns a
  \<^verbatim>\<open>size_t\<close>.
\<close>

definition GetEdgeLabelId :: "GraphDB \<Rightarrow> string \<Rightarrow> store_error + nat" where
  "GetEdgeLabelId db label =
     (case edge_label_ids db label of
        None \<Rightarrow> Inl LabelNotFound
      | Some n \<Rightarrow> Inr n)"

subsection \<open>The raw directional cursor\<close>

text \<open>
  Modelled from the spec: the engine's \<^verbatim>\<open>OutEdgeIterator\<close> and
  \<^verbatim>\<open>InEdgeIterator\<close> (the template parameter \<^verbatim>\<open>EIT\<close>), "all edges of a vertex
  in a direction" with "seek-to-locator and step-forward operations". The cursor is the
  edge list of the vertex and a position in it; it is valid while the position is on an
  edge.
\<close>

record EIT =
  edges :: "edge list"
  pos :: nat

definition EIT_IsValid :: "'a EIT_scheme \<Rightarrow> bool" where
  "EIT_IsValid c = (pos c < length (edges c))"

definition EIT_current :: "'a EIT_scheme \<Rightarrow> edge option" where
  "EIT_current c = (if EIT_IsValid c then Some (edges c ! pos c) else None)"

definition EIT_GetLabelId :: "'a EIT_scheme \<Rightarrow> (16 word) option" where
  "EIT_GetLabelId c = map_option lid (EIT_current c)"

definition EIT_Next :: "'a EIT_scheme \<Rightarrow> bool \<times> 'a EIT_scheme" where
  "EIT_Next c = (let c' = c\<lparr>pos := pos c + 1\<rparr> in (EIT_IsValid c', c'))"

text \<open>
  Modelled from the spec: the seek with \<^verbatim>\<open>nearest = true\<close>, "the first edge at or
  after the composite locator". Edges are ordered by label identifier, then temporal key;
  the locators built by this file end in destination 0 and edge id 0, the least values,
  so only label and temporal key decide.
\<close>

definition before_locator :: "16 word \<Rightarrow> int \<Rightarrow> edge \<Rightarrow> bool" where
  "before_locator l t e = (lid e < l \<or> (lid e = l \<and> tid e < t))"

definition seek_nearest :: "edge list \<Rightarrow> 16 word \<Rightarrow> int \<Rightarrow> EIT" where
  "seek_nearest es l t = \<lparr>edges = es, pos = length (takeWhile (before_locator l t) es)\<rparr>"

definition GetOutEdgeIterator :: "GraphDB \<Rightarrow> nat \<Rightarrow> 16 word \<Rightarrow> int \<Rightarrow> EIT" where
  "GetOutEdgeIterator db vid l t = seek_nearest (out_edges db vid) l t"

definition GetInEdgeIterator :: "GraphDB \<Rightarrow> nat \<Rightarrow> 16 word \<Rightarrow> int \<Rightarrow> EIT" where
  "GetInEdgeIterator db vid l t = seek_nearest (in_edges db vid) l t"

subsection \<open>LabeledEdgeIterator\<close>

text \<open>
  \<^verbatim>\<open>class LabeledEdgeIterator : public EIT\<close> adds the members \<^verbatim>\<open>lid_\<close> and
  \<^verbatim>\<open>valid_\<close> to the cursor it inherits from; here they are \<open>m_lid\<close> and
  \<open>m_valid\<close>, since a name of Isabelle cannot end in an underscore. The two
  overloads of \<^verbatim>\<open>Reset\<close> and the factory functions over a transaction are not
  called by \<^verbatim>\<open>Process\<close> and are left out.
\<close>

record LabeledEdgeIterator = EIT +
  m_lid :: "16 word"
  m_valid :: bool

text \<open>
  The constructor: \<^verbatim>\<open>valid_ = EIT::IsValid() && EIT::GetLabelId() == lid_\<close>.
\<close>

definition label_matches :: "'a EIT_scheme \<Rightarrow> 16 word \<Rightarrow> bool" where
  "label_matches c l = (EIT_IsValid c \<and> EIT_GetLabelId c = Some l)"

definition mk_LabeledEdgeIterator :: "EIT \<Rightarrow> 16 word \<Rightarrow> LabeledEdgeIterator" where
  "mk_LabeledEdgeIterator c l =
     \<lparr>edges = edges c, pos = pos c, m_lid = l, m_valid = label_matches c l\<rparr>"

definition IsValid :: "LabeledEdgeIterator \<Rightarrow> bool" where
  "IsValid it = m_valid it"

text \<open>
  \<^verbatim>\<open>Next\<close>: returns false at once when \<^verbatim>\<open>valid_\<close> is false; otherwise steps
  the inherited cursor and sets \<^verbatim>\<open>valid_\<close> to
  \<^verbatim>\<open>EIT::Next() && EIT::GetLabelId() == lid_\<close>. The result is the returned flag and
  the iterator after the call.
\<close>

definition Next :: "LabeledEdgeIterator \<Rightarrow> bool \<times> LabeledEdgeIterator" where
  "Next it =
     (if \<not> m_valid it then (False, it)
      else
        (let (ok, it') = EIT_Next it;
             v = (ok \<and> EIT_GetLabelId it' = Some (m_lid it'))
         in (v, it'\<lparr>m_valid := v\<rparr>)))"

text \<open>The two factory functions over a vertex iterator, used by \<^verbatim>\<open>Process\<close>.\<close>

definition LabeledOutEdgeIterator :: "GraphDB \<Rightarrow> nat \<Rightarrow> 16 word \<Rightarrow> int \<Rightarrow> LabeledEdgeIterator" where
  "LabeledOutEdgeIterator db vit l t = mk_LabeledEdgeIterator (GetOutEdgeIterator db vit l t) l"

definition LabeledInEdgeIterator :: "GraphDB \<Rightarrow> nat \<Rightarrow> 16 word \<Rightarrow> int \<Rightarrow> LabeledEdgeIterator" where
  "LabeledInEdgeIterator db vit l t = mk_LabeledEdgeIterator (GetInEdgeIterator db vit l t) l"

text \<open>
  \<^verbatim>\<open>GetField\<close> at the cursor: the loops read \<^verbatim>\<open>timestamp\<close> and
  \<^verbatim>\<open>amount\<close> of the edge under the cursor. The engine raises on a cursor that is
  off its edges; under the class invariant of the iterator this never happens inside
  the loops.
\<close>

definition GetField :: "LabeledEdgeIterator \<Rightarrow> store_error + edge" where
  "GetField it = (case EIT_current it of None \<Rightarrow> Inl InvalidIterator | Some e \<Rightarrow> Inr e)"

subsection \<open>The two scanning loops of Process\<close>

text \<open>The three local variables of one direction: \<^verbatim>\<open>sum_*\<close>, \<^verbatim>\<open>max_*\<close>, \<^verbatim>\<open>count_*\<close>.\<close>

record accumulator =
  sum_v :: real
  max_v :: real
  count_v :: int

text \<open>
  The loop over the outgoing edges (lines 117 to 132),
  \<^verbatim>\<open>for (eit = ...; eit.IsValid(); eit.Next())\<close>: an edge whose timestamp equals
  \<^verbatim>\<open>start_time\<close> is passed over (\<^verbatim>\<open>continue\<close>), the first other edge with
  \<^verbatim>\<open>timestamp >= end_time\<close> leaves the loop (\<^verbatim>\<open>break\<close>), every other edge is
  accumulated. The result holds the accumulator and the iterator as the loop leaves them.
\<close>

function scan_out ::
  "int \<Rightarrow> int \<Rightarrow> LabeledEdgeIterator \<Rightarrow> accumulator \<Rightarrow> store_error + (accumulator \<times> LabeledEdgeIterator)" where
  "scan_out start_time end_time eit a =
     (if \<not> IsValid eit then Inr (a, eit)
      else
        (case GetField eit of
           Inl err \<Rightarrow> Inl err
         | Inr e \<Rightarrow>
             (if timestamp e = start_time then
                scan_out start_time end_time (snd (Next eit)) a
              else if timestamp e \<ge> end_time then Inr (a, eit)
              else
                scan_out start_time end_time (snd (Next eit))
                  (a\<lparr>count_v := count_v a + 1,
                     sum_v := sum_v a + amount e,
                     max_v := (if amount e > max_v a then amount e else max_v a)\<rparr>))))"
  by pat_completeness auto
termination
  by (relation "measure (\<lambda>(s, e, it, a). length (edges it) - pos it)")
    (auto simp: IsValid_def GetField_def EIT_current_def EIT_IsValid_def Next_def EIT_Next_def
      Let_def split: if_splits)

text \<open>The loop over the incoming edges (lines 141 to 156), written out again as in the source.\<close>

function scan_in ::
  "int \<Rightarrow> int \<Rightarrow> LabeledEdgeIterator \<Rightarrow> accumulator \<Rightarrow> store_error + (accumulator \<times> LabeledEdgeIterator)" where
  "scan_in start_time end_time eit a =
     (if \<not> IsValid eit then Inr (a, eit)
      else
        (case GetField eit of
           Inl err \<Rightarrow> Inl err
         | Inr e \<Rightarrow>
             (if timestamp e = start_time then
                scan_in start_time end_time (snd (Next eit)) a
              else if timestamp e \<ge> end_time then Inr (a, eit)
              else
                scan_in start_time end_time (snd (Next eit))
                  (a\<lparr>count_v := count_v a + 1,
                     sum_v := sum_v a + amount e,
                     max_v := (if amount e > max_v a then amount e else max_v a)\<rparr>))))"
  by pat_completeness auto
termination
  by (relation "measure (\<lambda>(s, e, it, a). length (edges it) - pos it)")
    (auto simp: IsValid_def GetField_def EIT_current_def EIT_IsValid_def Next_def EIT_Next_def
      Let_def split: if_splits)

text \<open>
  \<^verbatim>\<open>std::round\<close> on the idealised doubles: to the nearest integer, a tie away from zero.
\<close>

definition cpp_round :: "real \<Rightarrow> real" where
  "cpp_round x = (if x \<ge> 0 then of_int \<lfloor>x + 1 / 2\<rfloor> else - of_int \<lfloor>- x + 1 / 2\<rfloor>)"

subsection \<open>The request\<close>

datatype json =
    JNull
  | JBoolean bool
  | JInteger int
  | JFloat real
  | JString string
  | JArray "json list"
  | JObject "(string \<times> json) list"

text \<open>
  Modelled from the spec: \<^verbatim>\<open>json::parse\<close> of the JSON library (nlohmann, not part of
  this repository). The request text is represented by what the parser makes of it: the
  message of the exception it raises, or the document.
\<close>

datatype request = Malformed string | Document json

text \<open>
  Modelled from the spec: \<^verbatim>\<open>parse_from_json\<close> of the engine's utility header, for an
  \<^verbatim>\<open>int64_t\<close> target: "All three fields required; parse failure of any field is a
  fatal error for the query". A field is well formed when the document is an object that
  binds the key to an integer; the texts of the messages stand for the library's.
\<close>

definition parse_from_json :: "string \<Rightarrow> json \<Rightarrow> string + int" where
  "parse_from_json key input =
     (case input of
        JObject kvs \<Rightarrow>
          (case map_of kvs key of
             None \<Rightarrow> Inl (''missing field '' @ key)
           | Some (JInteger n) \<Rightarrow> Inr n
           | Some _ \<Rightarrow> Inl (''field '' @ key @ '' is not an integer''))
      | _ \<Rightarrow> Inl ''the request is not an object'')"

text \<open>
  The \<^verbatim>\<open>try\<close> block of \<^verbatim>\<open>Process\<close> (lines 92 to 96): the first exception ends
  it; \<open>Inl\<close> carries \<^verbatim>\<open>e.what()\<close>.
\<close>

definition parse_request :: "request \<Rightarrow> string + (int \<times> int \<times> int)" where
  "parse_request request =
     (case request of
        Malformed what \<Rightarrow> Inl what
      | Document input \<Rightarrow>
          (case parse_from_json ''id'' input of
             Inl what \<Rightarrow> Inl what
           | Inr id' \<Rightarrow>
               (case parse_from_json ''startTime'' input of
                  Inl what \<Rightarrow> Inl what
                | Inr start_time \<Rightarrow>
                    (case parse_from_json ''endTime'' input of
                       Inl what \<Rightarrow> Inl what
                     | Inr end_time \<Rightarrow> Inr (id', start_time, end_time)))))"

subsection \<open>Process\<close>

definition ACCOUNT_ID :: string where "ACCOUNT_ID = ''id''"
definition ACCOUNT_LABEL :: string where "ACCOUNT_LABEL = ''Account''"
definition TRANSFER_LABEL :: string where "TRANSFER_LABEL = ''transfer''"

text \<open>The record \<^verbatim>\<open>Process\<close> emits on success, its six fields in their order.\<close>

record result_row =
  sumEdge1Amount :: real
  maxEdge1Amount :: real
  numEdge1 :: int
  sumEdge2Amount :: real
  maxEdge2Amount :: real
  numEdge2 :: int

text \<open>
  What \<^verbatim>\<open>response\<close> holds when \<^verbatim>\<open>Process\<close> returns: the object with the one
  member \<^verbatim>\<open>msg\<close>, or the dump of the result with its one record.
\<close>

datatype response = Msg string | Result result_row

text \<open>
  How a call of \<^verbatim>\<open>Process\<close> ends: it returns its flag with the response written,
  or an exception of the store leaves it (nothing in \<^verbatim>\<open>Process\<close> catches one after
  the \<^verbatim>\<open>try\<close> block) and no response is written.
\<close>

datatype outcome = Returned bool response | Thrown store_error

text \<open>
  \<^verbatim>\<open>Process\<close>, with the store calls it has issued when it ends. The label identifier
  is cast to \<^verbatim>\<open>int16_t\<close> and passed on as \<^verbatim>\<open>uint16_t\<close>: the low 16 bits.
\<close>

definition Process :: "GraphDB \<Rightarrow> request \<Rightarrow> outcome \<times> store_call list" where
  "Process db request =
     (case parse_request request of
        Inl what \<Rightarrow> (Returned False (Msg (''json parse error: '' @ what)), [])
      | Inr (id', start_time, end_time) \<Rightarrow>
          (let calls1 = [Call_CreateReadTxn, Call_GetVertexByUniqueIndex ACCOUNT_LABEL ACCOUNT_ID id'] in
           case GetVertexByUniqueIndex db ACCOUNT_LABEL ACCOUNT_ID id' of
             Inl err \<Rightarrow> (Thrown err, calls1)
           | Inr account \<Rightarrow>
               (let vit = account;
                    calls2 = calls1 @ [Call_GetVertexIterator, Call_Goto account,
                                       Call_GetEdgeLabelId TRANSFER_LABEL] in
                case GetEdgeLabelId db TRANSFER_LABEL of
                  Inl err \<Rightarrow> (Thrown err, calls2)
                | Inr n \<Rightarrow>
                    (let transfer_id = (of_nat n :: 16 word);
                         calls3 = calls2 @ [Call_GetOutEdgeIterator vit transfer_id start_time] in
                     case scan_out start_time end_time
                            (LabeledOutEdgeIterator db vit transfer_id start_time)
                            \<lparr>sum_v = 0, max_v = 0, count_v = 0\<rparr> of
                       Inl err \<Rightarrow> (Thrown err, calls3)
                     | Inr (acc_out, eit_out) \<Rightarrow>
                         (let sum_out = cpp_round (sum_v acc_out * 1000) / 1000;
                              max_out = cpp_round (max_v acc_out * 1000) / 1000;
                              count_out = count_v acc_out;
                              max_out = (if count_out = 0 then - 1 else max_out);
                              calls4 = calls3 @ [Call_GetInEdgeIterator vit transfer_id start_time] in
                          case scan_in start_time end_time
                                 (LabeledInEdgeIterator db vit transfer_id start_time)
                                 \<lparr>sum_v = 0, max_v = 0, count_v = 0\<rparr> of
                            Inl err \<Rightarrow> (Thrown err, calls4)
                          | Inr (acc_in, eit_in) \<Rightarrow>
                              (let sum_in = cpp_round (sum_v acc_in * 1000) / 1000;
                                   max_in = cpp_round (max_v acc_in * 1000) / 1000;
                                   count_in = count_v acc_in;
                                   max_in = (if count_in = 0 then - 1 else max_in) in
                               (Returned True
                                  (Result \<lparr>sumEdge1Amount = sum_out, maxEdge1Amount = max_out,
                                           numEdge1 = count_out, sumEdge2Amount = sum_in,
                                           maxEdge2Amount = max_in, numEdge2 = count_in\<rparr>),
                                calls4)))))))"

declare scan_out.simps [simp del]
declare scan_in.simps [simp del]

subsection \<open>Notions used to state the properties\<close>

text \<open>
  The class invariant of \<^verbatim>\<open>LabeledEdgeIterator\<close>: \<^verbatim>\<open>valid_\<close> says whether the
  cursor is on an edge of the label \<^verbatim>\<open>lid_\<close>. The constructor establishes it and
  \<^verbatim>\<open>Next\<close> keeps it.
\<close>

definition iterator_inv :: "LabeledEdgeIterator \<Rightarrow> bool" where
  "iterator_inv it = (m_valid it = label_matches it (m_lid it))"

text \<open>
  From an iterator onwards: the edges a loop passes over before it ends (each of the
  label, and each either at \<^verbatim>\<open>start_time\<close> or before \<^verbatim>\<open>end_time\<close>), and those
  of them it accumulates.
\<close>

definition scanned_edges :: "int \<Rightarrow> int \<Rightarrow> LabeledEdgeIterator \<Rightarrow> edge list" where
  "scanned_edges start_time end_time it =
     takeWhile (\<lambda>x. lid x = m_lid it \<and> (timestamp x = start_time \<or> timestamp x < end_time))
       (drop (pos it) (edges it))"

definition counted_edges :: "int \<Rightarrow> int \<Rightarrow> LabeledEdgeIterator \<Rightarrow> edge list" where
  "counted_edges start_time end_time it =
     filter (\<lambda>x. timestamp x \<noteq> start_time) (scanned_edges start_time end_time it)"

text \<open>The accumulator after the edges \<open>xs\<close> have been added to it.\<close>

definition accumulate :: "accumulator \<Rightarrow> edge list \<Rightarrow> accumulator" where
  "accumulate a xs =
     \<lparr>sum_v = sum_v a + sum_list (map amount xs),
      max_v = fold max (map amount xs) (max_v a),
      count_v = count_v a + int (length xs)\<rparr>"

text \<open>
  Modelled from the spec: the storage order of the edges of one vertex and direction,
  "label identifier is the primary sort key and a secondary key (conceptually
  timestamp-derived position) determines intra-label order". The temporal key of an
  edge of the label \<open>l\<close> is its timestamp.
\<close>

definition key_le :: "edge \<Rightarrow> edge \<Rightarrow> bool" where
  "key_le a b = (lid a < lid b \<or> (lid a = lid b \<and> tid a \<le> tid b))"

definition store_ordered :: "16 word \<Rightarrow> edge list \<Rightarrow> bool" where
  "store_ordered l es =
     (sorted_wrt key_le es \<and> list_all (\<lambda>x. lid x = l \<longrightarrow> tid x = timestamp x) es)"

text \<open>
  The edges of label \<open>l\<close> inside the open window \<open>(start_time, end_time)\<close>, the
  interval of the spec.
\<close>

definition open_window :: "int \<Rightarrow> int \<Rightarrow> 16 word \<Rightarrow> edge list \<Rightarrow> edge list" where
  "open_window start_time end_time l es =
     filter (\<lambda>x. lid x = l \<and> start_time < timestamp x \<and> timestamp x < end_time) es"

text \<open>
  A request field as the spec requires it: the request is a JSON object that binds the
  key to an integer.
\<close>

definition well_formed_field :: "string \<Rightarrow> request \<Rightarrow> bool" where
  "well_formed_field key request =
     (case request of
        Document (JObject kvs) \<Rightarrow>
          (case map_of kvs key of Some (JInteger n) \<Rightarrow> True | _ \<Rightarrow> False)
      | _ \<Rightarrow> False)"

subsection \<open>An example store and request\<close>

text \<open>
  Account 7 is vertex 0; \<^verbatim>\<open>transfer\<close> is label 3. The vertex has the three outgoing
  transfers of Scenario 1 of the spec and two incoming transfers with negative amounts.
  The request asks for the window \<open>(100, 200)\<close>.
\<close>

definition example_db :: GraphDB where
  "example_db =
     \<lparr>unique_index = (\<lambda>l f v. if l = ''Account'' \<and> f = ''id'' \<and> v = 7 then Some 0 else None),
      edge_label_ids = (\<lambda>l. if l = ''transfer'' then Some 3 else None),
      out_edges = (\<lambda>v. if v = 0 then
          [\<lparr>lid = 3, tid = 100, timestamp = 100, amount = 5\<rparr>,
           \<lparr>lid = 3, tid = 150, timestamp = 150, amount = 10\<rparr>,
           \<lparr>lid = 3, tid = 200, timestamp = 200, amount = 3\<rparr>] else []),
      in_edges = (\<lambda>v. if v = 0 then
          [\<lparr>lid = 3, tid = 120, timestamp = 120, amount = - 2\<rparr>,
           \<lparr>lid = 3, tid = 130, timestamp = 130, amount = - 3 / 2\<rparr>] else [])\<rparr>"

definition example_request :: request where
  "example_request =
     Document (JObject [(''id'', JInteger 7), (''startTime'', JInteger 100),
                        (''endTime'', JInteger 200)])"

section \<open>Properties\<close>

subsection \<open>The iterator\<close>

lemma label_matches_iff:
  "label_matches c l \<longleftrightarrow> pos c < length (edges c) \<and> lid (edges c ! pos c) = l"
  by (auto simp: label_matches_def EIT_IsValid_def EIT_GetLabelId_def EIT_current_def)

lemma mk_LabeledEdgeIterator_inv: "iterator_inv (mk_LabeledEdgeIterator c l)"
  by (simp add: iterator_inv_def mk_LabeledEdgeIterator_def label_matches_iff)

lemma Next_valid:
  "m_valid it \<Longrightarrow>
   Next it = (label_matches (it\<lparr>pos := pos it + 1\<rparr>) (m_lid it),
              it\<lparr>pos := pos it + 1,
                 m_valid := label_matches (it\<lparr>pos := pos it + 1\<rparr>) (m_lid it)\<rparr>)"
  by (auto simp: Next_def EIT_Next_def Let_def label_matches_iff EIT_IsValid_def
      EIT_GetLabelId_def EIT_current_def)

lemma Next_invalid: "\<not> m_valid it \<Longrightarrow> Next it = (False, it)"
  by (simp add: Next_def)

lemma Next_inv: "iterator_inv it \<Longrightarrow> iterator_inv (snd (Next it))"
  by (cases "m_valid it") (auto simp: Next_valid Next_invalid iterator_inv_def label_matches_iff)

subsection \<open>The loops\<close>

text \<open>The two loops are the same function of the iterator and the accumulator.\<close>

lemma scan_in_eq_scan_out: "scan_in s e it a = scan_out s e it a"
proof (induction s e it a rule: scan_out.induct)
  case (1 s e it a)
  show ?case
    by (subst scan_in.simps, subst scan_out.simps) (auto simp: 1 split: sum.splits)
qed

lemma accumulate_Nil: "accumulate a [] = a"
  by (simp add: accumulate_def)

lemma accumulate_Cons:
  "accumulate a (x # xs) =
     accumulate (a\<lparr>count_v := count_v a + 1, sum_v := sum_v a + amount x,
                   max_v := (if amount x > max_v a then amount x else max_v a)\<rparr>) xs"
  by (simp add: accumulate_def max_def)

text \<open>
  What a loop computes from an iterator that satisfies the class invariant: it never
  raises, it accumulates the counted edges, and it leaves the cursor behind the scanned
  ones.
\<close>

lemma scan_out_char:
  "iterator_inv it \<Longrightarrow>
   scan_out s e it a =
     Inr (accumulate a (counted_edges s e it),
          it\<lparr>pos := pos it + length (scanned_edges s e it),
             m_valid := label_matches (it\<lparr>pos := pos it + length (scanned_edges s e it)\<rparr>) (m_lid it)\<rparr>)"
proof (induction s e it a rule: scan_out.induct)
  case (1 s e it a)
  note inv = \<open>iterator_inv it\<close>
  show ?case
  proof (cases "m_valid it")
    case False
    with inv have "scanned_edges s e it = []"
      by (auto simp: iterator_inv_def label_matches_iff scanned_edges_def takeWhile_eq_Nil_iff
          hd_drop_conv_nth)
    with False inv show ?thesis
      by (subst scan_out.simps)
        (simp add: IsValid_def counted_edges_def accumulate_Nil iterator_inv_def)
  next
    case True
    with inv have p: "pos it < length (edges it)" and l: "lid (edges it ! pos it) = m_lid it"
      by (auto simp: iterator_inv_def label_matches_iff)
    let ?x = "edges it ! pos it"
    have gf: "GetField it = Inr ?x"
      using p by (simp add: GetField_def EIT_current_def EIT_IsValid_def)
    have dr: "drop (pos it) (edges it) = ?x # drop (pos it + 1) (edges it)"
      using p by (simp add: Cons_nth_drop_Suc)
    let ?it' = "snd (Next it)"
    have inv': "iterator_inv ?it'"
      using inv by (rule Next_inv)
    have it': "?it' = it\<lparr>pos := pos it + 1,
                          m_valid := label_matches (it\<lparr>pos := pos it + 1\<rparr>) (m_lid it)\<rparr>"
      using True by (simp add: Next_valid)
    consider (skip) "timestamp ?x = s"
      | (brk) "timestamp ?x \<noteq> s" "timestamp ?x \<ge> e"
      | (cnt) "timestamp ?x \<noteq> s" "timestamp ?x < e"
      by linarith
    then show ?thesis
    proof cases
      case skip
      have se: "scanned_edges s e it = ?x # scanned_edges s e ?it'"
        using skip l by (simp add: scanned_edges_def dr it')
      have "scan_out s e it a = scan_out s e ?it' a"
        using True skip gf by (subst scan_out.simps) (simp add: IsValid_def)
      also have "\<dots> = Inr (accumulate a (counted_edges s e ?it'),
          ?it'\<lparr>pos := pos ?it' + length (scanned_edges s e ?it'),
               m_valid := label_matches
                 (?it'\<lparr>pos := pos ?it' + length (scanned_edges s e ?it')\<rparr>) (m_lid ?it')\<rparr>)"
        using "1.IH"(1)[OF _ gf skip inv'] True by (simp add: IsValid_def)
      finally show ?thesis
        using skip by (simp add: se counted_edges_def it' label_matches_iff)
    next
      case brk
      have se: "scanned_edges s e it = []"
        using brk by (simp add: scanned_edges_def dr)
      show ?thesis
        using True brk gf inv
        by (subst scan_out.simps)
          (simp add: IsValid_def se counted_edges_def accumulate_Nil iterator_inv_def)
    next
      case cnt
      have se: "scanned_edges s e it = ?x # scanned_edges s e ?it'"
        using cnt l by (simp add: scanned_edges_def dr it')
      let ?a' = "a\<lparr>count_v := count_v a + 1, sum_v := sum_v a + amount ?x,
                     max_v := (if amount ?x > max_v a then amount ?x else max_v a)\<rparr>"
      have "scan_out s e it a = scan_out s e ?it' ?a'"
        using True cnt gf by (subst scan_out.simps) (simp add: IsValid_def)
      also have "\<dots> = Inr (accumulate ?a' (counted_edges s e ?it'),
          ?it'\<lparr>pos := pos ?it' + length (scanned_edges s e ?it'),
               m_valid := label_matches
                 (?it'\<lparr>pos := pos ?it' + length (scanned_edges s e ?it')\<rparr>) (m_lid ?it')\<rparr>)"
        using "1.IH"(2)[OF _ gf _ _ inv'] True cnt by (simp add: IsValid_def)
      finally show ?thesis
        using cnt by (simp add: se counted_edges_def it' label_matches_iff accumulate_Cons)
    qed
  qed
qed

lemma scan_in_char:
  "iterator_inv it \<Longrightarrow>
   scan_in s e it a =
     Inr (accumulate a (counted_edges s e it),
          it\<lparr>pos := pos it + length (scanned_edges s e it),
             m_valid := label_matches (it\<lparr>pos := pos it + length (scanned_edges s e it)\<rparr>) (m_lid it)\<rparr>)"
  by (simp add: scan_in_eq_scan_out scan_out_char)

lemma Next_iter_invalid: "\<not> m_valid it \<Longrightarrow> ((\<lambda>i. snd (Next i)) ^^ n) it = it"
  by (induction n) (simp_all add: Next_invalid)

lemma fold_max_Max: "fold max xs (m::real) = Max (insert m (set xs))"
  using Max.set_eq_fold [of m xs] by simp

subsection \<open>The four ways Process ends, and the store order\<close>

lemma Process_parse_error:
  "parse_request request = Inl what \<Longrightarrow>
   Process db request = (Returned False (Msg (''json parse error: '' @ what)), [])"
  by (simp add: Process_def)

lemma Process_vertex_not_found:
  "parse_request request = Inr (i, s, e) \<Longrightarrow> unique_index db ACCOUNT_LABEL ACCOUNT_ID i = None \<Longrightarrow>
   Process db request =
     (Thrown VertexNotFound,
      [Call_CreateReadTxn, Call_GetVertexByUniqueIndex ACCOUNT_LABEL ACCOUNT_ID i])"
  by (simp add: Process_def GetVertexByUniqueIndex_def)

lemma Process_label_not_found:
  "parse_request request = Inr (i, s, e) \<Longrightarrow> unique_index db ACCOUNT_LABEL ACCOUNT_ID i = Some v \<Longrightarrow>
   edge_label_ids db TRANSFER_LABEL = None \<Longrightarrow>
   Process db request =
     (Thrown LabelNotFound,
      [Call_CreateReadTxn, Call_GetVertexByUniqueIndex ACCOUNT_LABEL ACCOUNT_ID i,
       Call_GetVertexIterator, Call_Goto v, Call_GetEdgeLabelId TRANSFER_LABEL])"
  by (simp add: Process_def GetVertexByUniqueIndex_def GetEdgeLabelId_def)

lemma Process_success:
  assumes "parse_request request = Inr (i, s, e)"
    and "unique_index db ACCOUNT_LABEL ACCOUNT_ID i = Some v"
    and "edge_label_ids db TRANSFER_LABEL = Some n"
  shows "Process db request =
     (Returned True (Result
        \<lparr>sumEdge1Amount =
           cpp_round (sum_list (map amount (counted_edges s e (LabeledOutEdgeIterator db v (of_nat n) s))) * 1000) / 1000,
         maxEdge1Amount =
           (if counted_edges s e (LabeledOutEdgeIterator db v (of_nat n) s) = [] then - 1
            else cpp_round (fold max (map amount (counted_edges s e (LabeledOutEdgeIterator db v (of_nat n) s))) 0 * 1000) / 1000),
         numEdge1 = int (length (counted_edges s e (LabeledOutEdgeIterator db v (of_nat n) s))),
         sumEdge2Amount =
           cpp_round (sum_list (map amount (counted_edges s e (LabeledInEdgeIterator db v (of_nat n) s))) * 1000) / 1000,
         maxEdge2Amount =
           (if counted_edges s e (LabeledInEdgeIterator db v (of_nat n) s) = [] then - 1
            else cpp_round (fold max (map amount (counted_edges s e (LabeledInEdgeIterator db v (of_nat n) s))) 0 * 1000) / 1000),
         numEdge2 = int (length (counted_edges s e (LabeledInEdgeIterator db v (of_nat n) s)))\<rparr>),
      [Call_CreateReadTxn, Call_GetVertexByUniqueIndex ACCOUNT_LABEL ACCOUNT_ID i,
       Call_GetVertexIterator, Call_Goto v, Call_GetEdgeLabelId TRANSFER_LABEL,
       Call_GetOutEdgeIterator v (of_nat n) s, Call_GetInEdgeIterator v (of_nat n) s])"
proof -
  have o: "iterator_inv (LabeledOutEdgeIterator db v (of_nat n) s)"
    by (simp add: LabeledOutEdgeIterator_def mk_LabeledEdgeIterator_inv)
  have i: "iterator_inv (LabeledInEdgeIterator db v (of_nat n) s)"
    by (simp add: LabeledInEdgeIterator_def mk_LabeledEdgeIterator_inv)
  show ?thesis
    using assms
    by (simp add: Process_def GetVertexByUniqueIndex_def GetEdgeLabelId_def
        scan_out_char [OF o] scan_in_char [OF i] accumulate_def Let_def)
qed

lemma cpp_round_nonneg: "0 \<le> x \<Longrightarrow> 0 \<le> cpp_round x"
  by (simp add: cpp_round_def)

lemma fold_max_ge: "(m::real) \<le> fold max xs m"
  by (simp add: fold_max_Max)

lemma emitted_max_nonneg: "0 \<le> cpp_round (fold max xs 0 * 1000) / 1000"
proof -
  have "(0::real) \<le> fold max xs 0" by (rule fold_max_ge)
  then show ?thesis by (simp add: cpp_round_nonneg)
qed

lemma fold_max_neg: "\<forall>x\<in>set xs. x < 0 \<Longrightarrow> fold max xs (0::real) = 0"
  by (induction xs) (simp_all add: max_def)

lemma cpp_round_0: "cpp_round 0 = 0"
  by (simp add: cpp_round_def)


lemma Process_Returned_True:
  assumes "fst (Process db request) = Returned True resp"
  obtains i s e v n where "parse_request request = Inr (i, s, e)"
    and "unique_index db ACCOUNT_LABEL ACCOUNT_ID i = Some v"
    and "edge_label_ids db TRANSFER_LABEL = Some n"
proof (cases "parse_request request")
  case (Inl what)
  with assms show ?thesis by (simp add: Process_parse_error)
next
  case (Inr t)
  obtain i s e where t: "t = (i, s, e)" by (cases t)
  show ?thesis
  proof (cases "unique_index db ACCOUNT_LABEL ACCOUNT_ID i")
    case None
    with assms Inr t show ?thesis by (simp add: Process_vertex_not_found)
  next
    case (Some v)
    show ?thesis
    proof (cases "edge_label_ids db TRANSFER_LABEL")
      case None
      with assms Inr t Some show ?thesis by (simp add: Process_label_not_found)
    next
      case (Some n)
      with Inr t \<open>unique_index db ACCOUNT_LABEL ACCOUNT_ID i = Some v\<close> that show ?thesis by blast
    qed
  qed
qed

lemma sorted_wrt_takeWhile_filter:
  "sorted_wrt R xs \<Longrightarrow> \<forall>a\<in>set xs. \<forall>b\<in>set xs. R a b \<longrightarrow> Q b \<longrightarrow> Q a \<Longrightarrow>
   takeWhile Q xs = filter Q xs"
proof (induction xs)
  case Nil
  then show ?case by simp
next
  case (Cons x xs)
  show ?case
  proof (cases "Q x")
    case True
    have "takeWhile Q xs = filter Q xs"
      using Cons.prems by (intro Cons.IH) auto
    with True show ?thesis by simp
  next
    case False
    have "\<not> Q y" if "y \<in> set xs" for y
      using Cons.prems that False by auto
    then have "filter Q xs = []" by (simp add: filter_empty_conv)
    with False show ?thesis by simp
  qed
qed

lemma sorted_wrt_dropWhile_not:
  "sorted_wrt R xs \<Longrightarrow> \<forall>a\<in>set xs. \<forall>b\<in>set xs. R a b \<longrightarrow> P b \<longrightarrow> P a \<Longrightarrow>
   y \<in> set (dropWhile P xs) \<Longrightarrow> \<not> P y"
proof (induction xs)
  case Nil
  then show ?case by simp
next
  case (Cons x xs)
  show ?case
  proof (cases "P x")
    case True
    have "y \<in> set (dropWhile P xs)"
      using Cons.prems(3) True by simp
    then show ?thesis
      using Cons.prems by (intro Cons.IH) auto
  next
    case False
    with Cons.prems show ?thesis by auto
  qed
qed

lemma counted_edges_open_window:
  assumes "store_ordered l es"
  shows "counted_edges s e (mk_LabeledEdgeIterator (seek_nearest es l s) l) = open_window s e l es"
proof -
  let ?P = "before_locator l s"
  let ?Q = "\<lambda>x. lid x = l \<and> (timestamp x = s \<or> timestamp x < e)"
  let ?W = "\<lambda>x. lid x = l \<and> s < timestamp x \<and> timestamp x < e"
  let ?D = "dropWhile ?P es"
  from assms have srt: "sorted_wrt key_le es"
    and tt: "\<And>x. x \<in> set es \<Longrightarrow> lid x = l \<Longrightarrow> tid x = timestamp x"
    by (auto simp: store_ordered_def list_all_iff)
  have Pclosed: "?P a" if "key_le a b" "?P b" for a b
    using that by (auto simp: key_le_def before_locator_def)
  have notP: "\<not> ?P y" if "y \<in> set ?D" for y
    by (rule sorted_wrt_dropWhile_not [OF srt _ that]) (use Pclosed in blast)
  have Dsub: "set ?D \<subseteq> set es"
    by (auto dest: set_dropWhileD)
  have Dsrt: "sorted_wrt key_le ?D"
    using srt by (simp add: dropWhile_eq_drop sorted_wrt_drop)
  have Qclosed: "?Q a" if "a \<in> set ?D" "b \<in> set ?D" "key_le a b" "?Q b" for a b
  proof -
    have "\<not> ?P a" using that(1) by (rule notP)
    moreover have "lid a = l \<longrightarrow> tid a = timestamp a" "lid b = l \<longrightarrow> tid b = timestamp b"
      using that(1,2) Dsub tt by auto
    ultimately show ?thesis
      using that(3,4) by (auto simp: key_le_def before_locator_def)
  qed
  have tw: "takeWhile ?Q ?D = filter ?Q ?D"
    by (rule sorted_wrt_takeWhile_filter [OF Dsrt]) (use Qclosed in blast)
  have "counted_edges s e (mk_LabeledEdgeIterator (seek_nearest es l s) l)
        = filter (\<lambda>x. timestamp x \<noteq> s) (takeWhile ?Q ?D)"
    by (simp add: counted_edges_def scanned_edges_def mk_LabeledEdgeIterator_def seek_nearest_def
        dropWhile_eq_drop)
  also have "\<dots> = filter (\<lambda>x. timestamp x \<noteq> s \<and> ?Q x) ?D"
    by (simp add: tw conj_commute)
  also have "\<dots> = filter ?W ?D"
  proof (rule filter_cong [OF refl])
    fix x assume x: "x \<in> set ?D"
    then have "\<not> ?P x" by (rule notP)
    moreover have "lid x = l \<longrightarrow> tid x = timestamp x" using x Dsub tt by auto
    ultimately show "(timestamp x \<noteq> s \<and> ?Q x) = ?W x"
      by (auto simp: before_locator_def)
  qed
  also have "\<dots> = filter ?W (takeWhile ?P es) @ filter ?W ?D"
  proof -
    have "\<not> ?W x" if "x \<in> set (takeWhile ?P es)" for x
    proof -
      have "?P x" using that by (rule set_takeWhileD [THEN conjunct2])
      moreover have "lid x = l \<longrightarrow> tid x = timestamp x"
        using that tt by (auto dest: set_takeWhileD)
      ultimately show ?thesis by (auto simp: before_locator_def)
    qed
    then have "filter ?W (takeWhile ?P es) = []"
      by (simp add: filter_empty_conv)
    then show ?thesis by simp
  qed
  also have "\<dots> = filter ?W (takeWhile ?P es @ ?D)"
    by (simp only: filter_append)
  also have "\<dots> = open_window s e l es"
    by (simp only: takeWhile_dropWhile_id open_window_def)
  finally show ?thesis .
qed

text \<open>
  On edges in storage order \<^verbatim>\<open>Process\<close> aggregates the edges of the label inside the
  open window: the seek lands behind every edge before \<^verbatim>\<open>start_time\<close>, the loop
  passes over the edges at \<^verbatim>\<open>start_time\<close> and stops at the first edge at or after
  \<^verbatim>\<open>end_time\<close>.
\<close>

lemma Process_open_window:
  assumes "parse_request request = Inr (i, s, e)"
    and "unique_index db ACCOUNT_LABEL ACCOUNT_ID i = Some v"
    and "edge_label_ids db TRANSFER_LABEL = Some n"
    and "store_ordered (of_nat n) (out_edges db v)"
    and "store_ordered (of_nat n) (in_edges db v)"
  shows "fst (Process db request) =
     Returned True (Result
        \<lparr>sumEdge1Amount =
           cpp_round (sum_list (map amount (open_window s e (of_nat n) (out_edges db v))) * 1000) / 1000,
         maxEdge1Amount =
           (if open_window s e (of_nat n) (out_edges db v) = [] then - 1
            else cpp_round (fold max (map amount (open_window s e (of_nat n) (out_edges db v))) 0 * 1000) / 1000),
         numEdge1 = int (length (open_window s e (of_nat n) (out_edges db v))),
         sumEdge2Amount =
           cpp_round (sum_list (map amount (open_window s e (of_nat n) (in_edges db v))) * 1000) / 1000,
         maxEdge2Amount =
           (if open_window s e (of_nat n) (in_edges db v) = [] then - 1
            else cpp_round (fold max (map amount (open_window s e (of_nat n) (in_edges db v))) 0 * 1000) / 1000),
         numEdge2 = int (length (open_window s e (of_nat n) (in_edges db v)))\<rparr>)"
proof -
  have o: "counted_edges s e (LabeledOutEdgeIterator db v (of_nat n) s)
           = open_window s e (of_nat n) (out_edges db v)"
    using counted_edges_open_window [OF assms(4)]
    by (simp add: LabeledOutEdgeIterator_def GetOutEdgeIterator_def)
  have i: "counted_edges s e (LabeledInEdgeIterator db v (of_nat n) s)
           = open_window s e (of_nat n) (in_edges db v)"
    using counted_edges_open_window [OF assms(5)]
    by (simp add: LabeledInEdgeIterator_def GetInEdgeIterator_def)
  show ?thesis
    using Process_success [OF assms(1-3)] by (simp add: o i)
qed

subsection \<open>The request parser\<close>

lemma parse_from_json_Inr_field:
  "parse_from_json k input = Inr n \<Longrightarrow> well_formed_field k (Document input)"
  by (auto simp: parse_from_json_def well_formed_field_def split: option.splits json.splits)

lemma parse_request_Inr_fields:
  assumes "parse_request request = Inr t"
  shows "well_formed_field ''id'' request \<and> well_formed_field ''startTime'' request \<and>
         well_formed_field ''endTime'' request"
proof (cases request)
  case (Malformed what)
  with assms show ?thesis by (simp add: parse_request_def)
next
  case (Document input)
  with assms show ?thesis
    by (auto simp: parse_request_def split: sum.splits intro: parse_from_json_Inr_field)
qed

subsection \<open>The example store evaluated\<close>

lemma example_parse: "parse_request example_request = Inr (7, 100, 200)"
  by (simp add: example_request_def parse_request_def parse_from_json_def)

lemma example_index: "unique_index example_db ACCOUNT_LABEL ACCOUNT_ID 7 = Some 0"
  by (simp add: example_db_def ACCOUNT_LABEL_def ACCOUNT_ID_def)

lemma example_label: "edge_label_ids example_db TRANSFER_LABEL = Some 3"
  by (simp add: example_db_def TRANSFER_LABEL_def)

lemma example_out_edges:
  "out_edges example_db 0 =
     [\<lparr>lid = of_nat 3, tid = 100, timestamp = 100, amount = 5\<rparr>,
      \<lparr>lid = of_nat 3, tid = 150, timestamp = 150, amount = 10\<rparr>,
      \<lparr>lid = of_nat 3, tid = 200, timestamp = 200, amount = 3\<rparr>]"
  by (simp add: example_db_def)

lemma example_counted_out:
  "counted_edges 100 200 (LabeledOutEdgeIterator example_db 0 3 100) =
     [\<lparr>lid = 3, tid = 150, timestamp = 150, amount = 10\<rparr>]"
  by (simp add: counted_edges_def scanned_edges_def LabeledOutEdgeIterator_def
      GetOutEdgeIterator_def seek_nearest_def mk_LabeledEdgeIterator_def before_locator_def
      example_db_def)

lemma example_counted_in:
  "counted_edges 100 200 (LabeledInEdgeIterator example_db 0 3 100) =
     [\<lparr>lid = 3, tid = 120, timestamp = 120, amount = - 2\<rparr>,
      \<lparr>lid = 3, tid = 130, timestamp = 130, amount = - 3 / 2\<rparr>]"
  by (simp add: counted_edges_def scanned_edges_def LabeledInEdgeIterator_def
      GetInEdgeIterator_def seek_nearest_def mk_LabeledEdgeIterator_def before_locator_def
      example_db_def)

lemma example_Process:
  "fst (Process example_db example_request) =
     Returned True (Result \<lparr>sumEdge1Amount = 10, maxEdge1Amount = 10, numEdge1 = 1,
        sumEdge2Amount = - 7 / 2, maxEdge2Amount = 0, numEdge2 = 2\<rparr>)"
  using Process_success [OF example_parse example_index example_label]
  by (simp add: example_counted_out example_counted_in cpp_round_def)

lemma example_store_ordered:
  "store_ordered 3 (out_edges example_db 0)" "store_ordered 3 (in_edges example_db 0)"
  by (simp_all add: store_ordered_def key_le_def example_db_def)

lemma example_open_window:
  "open_window 100 200 3 (out_edges example_db 0) \<noteq> []"
  "open_window 300 400 3 (out_edges example_db 0) = []"
  by (simp_all add: open_window_def example_db_def)

lemma example_late_parse:
  "parse_request (Document (JObject [(''id'', JInteger 7), (''startTime'', JInteger 300),
      (''endTime'', JInteger 400)])) = Inr (7, 300, 400)"
  by (simp add: parse_request_def parse_from_json_def)

lemma example_late_Process:
  "fst (Process example_db (Document (JObject [(''id'', JInteger 7), (''startTime'', JInteger 300),
      (''endTime'', JInteger 400)]))) =
     Returned True (Result \<lparr>sumEdge1Amount = 0, maxEdge1Amount = - 1, numEdge1 = 0,
        sumEdge2Amount = 0, maxEdge2Amount = - 1, numEdge2 = 0\<rparr>)"
  using Process_success [OF example_late_parse example_index example_label]
  by (simp add: counted_edges_def scanned_edges_def LabeledOutEdgeIterator_def
      LabeledInEdgeIterator_def GetInEdgeIterator_def
      GetOutEdgeIterator_def seek_nearest_def mk_LabeledEdgeIterator_def before_locator_def
      example_db_def cpp_round_def)

subsection \<open>One step of a loop at the start boundary\<close>

lemma scan_out_skip:
  "IsValid eit \<Longrightarrow> GetField eit = Inr x \<Longrightarrow> timestamp x = start_time \<Longrightarrow>
   scan_out start_time end_time eit a = scan_out start_time end_time (snd (Next eit)) a"
  by (subst scan_out.simps) simp

lemma scan_in_skip:
  "IsValid eit \<Longrightarrow> GetField eit = Inr x \<Longrightarrow> timestamp x = start_time \<Longrightarrow>
   scan_in start_time end_time eit a = scan_in start_time end_time (snd (Next eit)) a"
  by (subst scan_in.simps) simp

section \<open>The claims\<close>

text \<open>
  C1. An edge whose timestamp equals \<^verbatim>\<open>start_time\<close> is skipped by both loops,
  whatever its amount. First, one step: a loop that stands on such an edge goes on from
  the next position with its accumulator (count, sum and max) unchanged. Second, the
  whole loop, started on a freshly constructed iterator: it ends without an exception,
  and of the edges the cursor has passed over when it ends, exactly those whose timestamp
  differs from \<^verbatim>\<open>start_time\<close> are counted, are added to the sum and take part in
  the maximum. The outgoing and the incoming loop give the same result.
\<close>

theorem start_boundary_edge_skipped:
  "(IsValid eit \<and> GetField eit = Inr x \<and> timestamp x = start_time \<longrightarrow>
      scan_out start_time end_time eit a = scan_out start_time end_time (snd (Next eit)) a \<and>
      scan_in start_time end_time eit a = scan_in start_time end_time (snd (Next eit)) a) \<and>
   (\<exists>a' it'.
     scan_out start_time end_time (mk_LabeledEdgeIterator c l) a = Inr (a', it') \<and>
     scan_in start_time end_time (mk_LabeledEdgeIterator c l) a = Inr (a', it') \<and>
     pos c \<le> pos it' \<and>
     (let passed = take (pos it' - pos c) (drop (pos c) (edges c));
          kept = filter (\<lambda>x. timestamp x \<noteq> start_time) passed
      in count_v a' = count_v a + int (length kept) \<and>
         sum_v a' = sum_v a + sum_list (map amount kept) \<and>
         max_v a' = Max (insert (max_v a) (amount ` set kept))))"
proof -
  let ?it = "mk_LabeledEdgeIterator c l"
  have inv: "iterator_inv ?it"
    by (rule mk_LabeledEdgeIterator_inv)
  have se: "take (length (scanned_edges start_time end_time ?it)) (drop (pos c) (edges c))
             = scanned_edges start_time end_time ?it"
    by (simp add: scanned_edges_def mk_LabeledEdgeIterator_def takeWhile_eq_take [symmetric])
  have whole: "\<exists>a' it'.
     scan_out start_time end_time ?it a = Inr (a', it') \<and>
     scan_in start_time end_time ?it a = Inr (a', it') \<and>
     pos c \<le> pos it' \<and>
     (let passed = take (pos it' - pos c) (drop (pos c) (edges c));
          kept = filter (\<lambda>x. timestamp x \<noteq> start_time) passed
      in count_v a' = count_v a + int (length kept) \<and>
         sum_v a' = sum_v a + sum_list (map amount kept) \<and>
         max_v a' = Max (insert (max_v a) (amount ` set kept)))"
    by (simp add: scan_out_char [OF inv] scan_in_char [OF inv] Let_def)
       (simp add: mk_LabeledEdgeIterator_def se [unfolded mk_LabeledEdgeIterator_def]
         accumulate_def counted_edges_def fold_max_Max)
  have step: "IsValid eit \<and> GetField eit = Inr x \<and> timestamp x = start_time \<longrightarrow>
      scan_out start_time end_time eit a = scan_out start_time end_time (snd (Next eit)) a \<and>
      scan_in start_time end_time eit a = scan_in start_time end_time (snd (Next eit)) a"
    using scan_out_skip [of eit x start_time end_time a]
      scan_in_skip [of eit x start_time end_time a] by blast
  from step whole show ?thesis ..
qed

text \<open>
  An edge at the start boundary with amount 1000000 is passed over: the outgoing loop over
  it and an edge at 150 with amount 10, for the window \<open>(100, 200)\<close>, counts one edge,
  with sum 10 and maximum 10.
\<close>

theorem start_boundary_edge_skipped_witness:
  "IsValid
    \<lparr>edges = [\<lparr>lid = 1, tid = 100, timestamp = 100, amount = 1000000\<rparr>,
              \<lparr>lid = 1, tid = 150, timestamp = 150, amount = 10\<rparr>],
     pos = 0, m_lid = 1, m_valid = True\<rparr> \<and>
   GetField
    \<lparr>edges = [\<lparr>lid = 1, tid = 100, timestamp = 100, amount = 1000000\<rparr>,
              \<lparr>lid = 1, tid = 150, timestamp = 150, amount = 10\<rparr>],
     pos = 0, m_lid = 1, m_valid = True\<rparr> =
     Inr \<lparr>lid = 1, tid = 100, timestamp = 100, amount = 1000000\<rparr> \<and>
   scan_out 100 200
    \<lparr>edges = [\<lparr>lid = 1, tid = 100, timestamp = 100, amount = 1000000\<rparr>,
              \<lparr>lid = 1, tid = 150, timestamp = 150, amount = 10\<rparr>],
     pos = 0, m_lid = 1, m_valid = True\<rparr>
    \<lparr>sum_v = 0, max_v = 0, count_v = 0\<rparr> =
   scan_out 100 200
    (snd (Next
    \<lparr>edges = [\<lparr>lid = 1, tid = 100, timestamp = 100, amount = 1000000\<rparr>,
              \<lparr>lid = 1, tid = 150, timestamp = 150, amount = 10\<rparr>],
     pos = 0, m_lid = 1, m_valid = True\<rparr>))
    \<lparr>sum_v = 0, max_v = 0, count_v = 0\<rparr> \<and>
   scan_out 100 200
    (mk_LabeledEdgeIterator
    \<lparr>edges = [\<lparr>lid = 1, tid = 100, timestamp = 100, amount = 1000000\<rparr>,
              \<lparr>lid = 1, tid = 150, timestamp = 150, amount = 10\<rparr>],
     pos = 0\<rparr> 1)
    \<lparr>sum_v = 0, max_v = 0, count_v = 0\<rparr> =
   Inr (\<lparr>sum_v = 10, max_v = 10, count_v = 1\<rparr>,
    \<lparr>edges = [\<lparr>lid = 1, tid = 100, timestamp = 100, amount = 1000000\<rparr>,
              \<lparr>lid = 1, tid = 150, timestamp = 150, amount = 10\<rparr>],
     pos = 2, m_lid = 1, m_valid = False\<rparr>)"
proof -
  have e: "scan_out 100 200
    (mk_LabeledEdgeIterator
    \<lparr>edges = [\<lparr>lid = 1, tid = 100, timestamp = 100, amount = 1000000\<rparr>,
              \<lparr>lid = 1, tid = 150, timestamp = 150, amount = 10\<rparr>],
     pos = 0\<rparr> 1)
    \<lparr>sum_v = 0, max_v = 0, count_v = 0\<rparr> =
   Inr (\<lparr>sum_v = 10, max_v = 10, count_v = 1\<rparr>,
    \<lparr>edges = [\<lparr>lid = 1, tid = 100, timestamp = 100, amount = 1000000\<rparr>,
              \<lparr>lid = 1, tid = 150, timestamp = 150, amount = 10\<rparr>],
     pos = 2, m_lid = 1, m_valid = False\<rparr>)"
    by (simp add: scan_out.simps mk_LabeledEdgeIterator_def label_matches_def EIT_IsValid_def
        EIT_GetLabelId_def EIT_current_def IsValid_def GetField_def Next_def EIT_Next_def Let_def)
  show ?thesis
    using start_boundary_edge_skipped
      [of "\<lparr>edges = [\<lparr>lid = 1, tid = 100, timestamp = 100, amount = 1000000\<rparr>,
              \<lparr>lid = 1, tid = 150, timestamp = 150, amount = 10\<rparr>],
     pos = 0, m_lid = 1, m_valid = True\<rparr>"
          "\<lparr>lid = 1, tid = 100, timestamp = 100, amount = 1000000\<rparr>" 100 200
          "\<lparr>sum_v = 0, max_v = 0, count_v = 0\<rparr>"
          "\<lparr>edges = [\<lparr>lid = 1, tid = 100, timestamp = 100, amount = 1000000\<rparr>,
              \<lparr>lid = 1, tid = 150, timestamp = 150, amount = 10\<rparr>],
     pos = 0\<rparr>" 1]
    by (simp add: e IsValid_def GetField_def EIT_current_def EIT_IsValid_def)
qed

text \<open>
  C2, as amended. In each loop, the first edge met whose timestamp is at least
  \<^verbatim>\<open>end_time\<close> and differs from \<^verbatim>\<open>start_time\<close> ends the loop at once. Let the
  edges from the cursor onwards be \<open>pre\<close>, then \<open>x\<close>, then \<open>post\<close>, where
  every edge of \<open>pre\<close> has the label and does not end the loop, and \<open>x\<close> has the
  label, a timestamp of at least \<^verbatim>\<open>end_time\<close> and not \<^verbatim>\<open>start_time\<close>. Then the
  loop ends with the cursor on \<open>x\<close>, after \<open>length pre\<close> steps, and its accumulator
  is made of edges of \<open>pre\<close> only: \<open>x\<close> is excluded and no edge of \<open>post\<close> is
  reached.
\<close>

theorem end_boundary_stops_scan:
  assumes "drop (pos c) (edges c) = pre @ x # post"
    and "\<forall>y\<in>set pre. lid y = l \<and> (timestamp y = start_time \<or> timestamp y < end_time)"
    and "lid x = l" and "timestamp x \<ge> end_time" and "timestamp x \<noteq> start_time"
  shows "\<exists>a'.
     scan_out start_time end_time (mk_LabeledEdgeIterator c l) a =
       Inr (a', \<lparr>edges = edges c, pos = pos c + length pre, m_lid = l, m_valid = True\<rparr>) \<and>
     scan_in start_time end_time (mk_LabeledEdgeIterator c l) a =
       Inr (a', \<lparr>edges = edges c, pos = pos c + length pre, m_lid = l, m_valid = True\<rparr>) \<and>
     (let kept = filter (\<lambda>y. timestamp y \<noteq> start_time) pre
      in count_v a' = count_v a + int (length kept) \<and>
         sum_v a' = sum_v a + sum_list (map amount kept) \<and>
         max_v a' = Max (insert (max_v a) (amount ` set kept)))"
proof -
  let ?it = "mk_LabeledEdgeIterator c l"
  let ?Q = "\<lambda>y. lid y = l \<and> (timestamp y = start_time \<or> timestamp y < end_time)"
  have inv: "iterator_inv ?it"
    by (rule mk_LabeledEdgeIterator_inv)
  have "takeWhile ?Q (pre @ x # post) = pre @ takeWhile ?Q (x # post)"
    using assms(2) by (intro takeWhile_append2) simp
  also have "\<dots> = pre"
    using assms(4,5) by simp
  finally have se: "scanned_edges start_time end_time ?it = pre"
    by (simp add: scanned_edges_def mk_LabeledEdgeIterator_def assms(1))
  have len: "pos c + length pre < length (edges c)"
  proof -
    have "length (drop (pos c) (edges c)) = length pre + 1 + length post"
      by (simp add: assms(1))
    then show ?thesis by simp
  qed
  have "drop (pos c) (edges c) ! length pre = x"
    by (simp add: assms(1))
  then have nth: "edges c ! (pos c + length pre) = x"
    using len by simp
  have lm: "label_matches (?it\<lparr>pos := pos ?it + length pre\<rparr>) (m_lid ?it)"
    using len nth assms(3) by (simp add: label_matches_iff mk_LabeledEdgeIterator_def)
  have fin: "?it\<lparr>pos := pos ?it + length pre, m_valid := True\<rparr>
             = \<lparr>edges = edges c, pos = pos c + length pre, m_lid = l, m_valid = True\<rparr>"
    by (simp add: mk_LabeledEdgeIterator_def)
  show ?thesis
    by (simp add: scan_out_char [OF inv] scan_in_char [OF inv] se lm fin counted_edges_def
        accumulate_def fold_max_Max Let_def)
qed

text \<open>
  With the window \<open>(100, 200)\<close> the loop stops on the edge at 200, two steps from the
  start; the edge behind it, at 150, is not reached and not counted.
\<close>

theorem end_boundary_stops_scan_witness:
  "scan_out 100 200
     (mk_LabeledEdgeIterator
        \<lparr>edges = [\<lparr>lid = 1, tid = 100, timestamp = 100, amount = 5\<rparr>,
                  \<lparr>lid = 1, tid = 150, timestamp = 150, amount = 10\<rparr>,
                  \<lparr>lid = 1, tid = 200, timestamp = 200, amount = 3\<rparr>,
                  \<lparr>lid = 1, tid = 150, timestamp = 150, amount = 8\<rparr>], pos = 0\<rparr> 1)
     \<lparr>sum_v = 0, max_v = 0, count_v = 0\<rparr> =
   Inr (\<lparr>sum_v = 10, max_v = 10, count_v = 1\<rparr>,
        \<lparr>edges = [\<lparr>lid = 1, tid = 100, timestamp = 100, amount = 5\<rparr>,
                  \<lparr>lid = 1, tid = 150, timestamp = 150, amount = 10\<rparr>,
                  \<lparr>lid = 1, tid = 200, timestamp = 200, amount = 3\<rparr>,
                  \<lparr>lid = 1, tid = 150, timestamp = 150, amount = 8\<rparr>],
         pos = 2, m_lid = 1, m_valid = True\<rparr>)"
  using end_boundary_stops_scan
    [of "\<lparr>edges = [\<lparr>lid = 1, tid = 100, timestamp = 100, amount = 5\<rparr>,
                  \<lparr>lid = 1, tid = 150, timestamp = 150, amount = 10\<rparr>,
                  \<lparr>lid = 1, tid = 200, timestamp = 200, amount = 3\<rparr>,
                  \<lparr>lid = 1, tid = 150, timestamp = 150, amount = 8\<rparr>], pos = 0\<rparr>"
        "[\<lparr>lid = 1, tid = 100, timestamp = 100, amount = 5\<rparr>,
          \<lparr>lid = 1, tid = 150, timestamp = 150, amount = 10\<rparr>]"
        "\<lparr>lid = 1, tid = 200, timestamp = 200, amount = 3\<rparr>"
        "[\<lparr>lid = 1, tid = 150, timestamp = 150, amount = 8\<rparr>]"
        1 100 200 "\<lparr>sum_v = 0, max_v = 0, count_v = 0\<rparr>"]
  by (auto simp: Let_def)

text \<open>
  C2 as stated fails for a window with \<^verbatim>\<open>start_time >= end_time\<close>, since the test
  for \<^verbatim>\<open>start_time\<close> comes first. With \<open>start_time = end_time = 100\<close>, the first
  edge met has timestamp \<open>100 \<ge> end_time\<close>, yet the loop steps over it and ends on the
  next edge, at position 1; and where that next edge is changed to timestamp 100 the loop
  goes on to position 2: the edge behind the first one is inspected.
\<close>

theorem end_boundary_counterexample:
  "timestamp ([\<lparr>lid = 1, tid = 100, timestamp = 100, amount = 5\<rparr>,
               \<lparr>lid = 1, tid = 150, timestamp = 150, amount = 7\<rparr>] ! 0) \<ge> 100 \<and>
   scan_out 100 100
     (mk_LabeledEdgeIterator
        \<lparr>edges = [\<lparr>lid = 1, tid = 100, timestamp = 100, amount = 5\<rparr>,
                  \<lparr>lid = 1, tid = 150, timestamp = 150, amount = 7\<rparr>], pos = 0\<rparr> 1)
     \<lparr>sum_v = 0, max_v = 0, count_v = 0\<rparr> =
   Inr (\<lparr>sum_v = 0, max_v = 0, count_v = 0\<rparr>,
        \<lparr>edges = [\<lparr>lid = 1, tid = 100, timestamp = 100, amount = 5\<rparr>,
                  \<lparr>lid = 1, tid = 150, timestamp = 150, amount = 7\<rparr>],
         pos = 1, m_lid = 1, m_valid = True\<rparr>) \<and>
   scan_out 100 100
     (mk_LabeledEdgeIterator
        \<lparr>edges = [\<lparr>lid = 1, tid = 100, timestamp = 100, amount = 5\<rparr>,
                  \<lparr>lid = 1, tid = 100, timestamp = 100, amount = 7\<rparr>], pos = 0\<rparr> 1)
     \<lparr>sum_v = 0, max_v = 0, count_v = 0\<rparr> =
   Inr (\<lparr>sum_v = 0, max_v = 0, count_v = 0\<rparr>,
        \<lparr>edges = [\<lparr>lid = 1, tid = 100, timestamp = 100, amount = 5\<rparr>,
                  \<lparr>lid = 1, tid = 100, timestamp = 100, amount = 7\<rparr>],
         pos = 2, m_lid = 1, m_valid = False\<rparr>)"
  by (simp add: scan_out.simps mk_LabeledEdgeIterator_def label_matches_def EIT_IsValid_def
      EIT_GetLabelId_def EIT_current_def IsValid_def GetField_def Next_def EIT_Next_def Let_def)

text \<open>
  C3. For every successful query, \<^verbatim>\<open>numEdge1\<close> is 0 exactly when
  \<^verbatim>\<open>maxEdge1Amount\<close> is \<open>-1\<close>, and \<^verbatim>\<open>numEdge2\<close> is 0 exactly when
  \<^verbatim>\<open>maxEdge2Amount\<close> is \<open>-1\<close>. Moreover the query has parameters, a vertex and a
  label such that, where the edges of a direction are in storage order, the sentinel
  \<open>-1\<close> is emitted for that direction exactly when no edge of the label lies inside
  the open window \<open>(start_time, end_time)\<close>.
\<close>

theorem sentinel_iff_count_zero:
  assumes "fst (Process db request) = Returned True (Result r)"
  shows "(numEdge1 r = 0 \<longleftrightarrow> maxEdge1Amount r = - 1) \<and>
         (numEdge2 r = 0 \<longleftrightarrow> maxEdge2Amount r = - 1) \<and>
         (\<exists>i s e v n.
            parse_request request = Inr (i, s, e) \<and>
            unique_index db ACCOUNT_LABEL ACCOUNT_ID i = Some v \<and>
            edge_label_ids db TRANSFER_LABEL = Some n \<and>
            (store_ordered (of_nat n) (out_edges db v) \<longrightarrow>
               (maxEdge1Amount r = - 1 \<longleftrightarrow> open_window s e (of_nat n) (out_edges db v) = [])) \<and>
            (store_ordered (of_nat n) (in_edges db v) \<longrightarrow>
               (maxEdge2Amount r = - 1 \<longleftrightarrow> open_window s e (of_nat n) (in_edges db v) = [])))"
proof -
  from assms obtain i s e v n where
    p: "parse_request request = Inr (i, s, e)"
    and u: "unique_index db ACCOUNT_LABEL ACCOUNT_ID i = Some v"
    and l: "edge_label_ids db TRANSFER_LABEL = Some n"
    by (rule Process_Returned_True)
  let ?co = "counted_edges s e (LabeledOutEdgeIterator db v (of_nat n) s)"
  let ?ci = "counted_edges s e (LabeledInEdgeIterator db v (of_nat n) s)"
  have n1: "numEdge1 r = int (length ?co)" and n2: "numEdge2 r = int (length ?ci)"
    and m1: "maxEdge1Amount r =
      (if ?co = [] then - 1 else cpp_round (fold max (map amount ?co) 0 * 1000) / 1000)"
    and m2: "maxEdge2Amount r =
      (if ?ci = [] then - 1 else cpp_round (fold max (map amount ?ci) 0 * 1000) / 1000)"
    using assms Process_success [OF p u l] by auto
  have ne: "cpp_round (fold max xs 0 * 1000) \<noteq> - 1000" for xs
    using emitted_max_nonneg [of xs] by auto
  have s1: "maxEdge1Amount r = - 1 \<longleftrightarrow> ?co = []"
    by (simp add: m1 ne)
  have s2: "maxEdge2Amount r = - 1 \<longleftrightarrow> ?ci = []"
    by (simp add: m2 ne)
  have o: "?co = open_window s e (of_nat n) (out_edges db v)" if "store_ordered (of_nat n) (out_edges db v)"
    using counted_edges_open_window [OF that]
    by (simp add: LabeledOutEdgeIterator_def GetOutEdgeIterator_def)
  have i: "?ci = open_window s e (of_nat n) (in_edges db v)" if "store_ordered (of_nat n) (in_edges db v)"
    using counted_edges_open_window [OF that]
    by (simp add: LabeledInEdgeIterator_def GetInEdgeIterator_def)
  have "numEdge1 r = 0 \<longleftrightarrow> maxEdge1Amount r = - 1"
    by (simp add: s1 n1)
  moreover have "numEdge2 r = 0 \<longleftrightarrow> maxEdge2Amount r = - 1"
    by (simp add: s2 n2)
  moreover have "store_ordered (of_nat n) (out_edges db v) \<longrightarrow>
      (maxEdge1Amount r = - 1 \<longleftrightarrow> open_window s e (of_nat n) (out_edges db v) = [])"
    using o s1 by auto
  moreover have "store_ordered (of_nat n) (in_edges db v) \<longrightarrow>
      (maxEdge2Amount r = - 1 \<longleftrightarrow> open_window s e (of_nat n) (in_edges db v) = [])"
    using i s2 by auto
  ultimately show ?thesis
    using p u l by blast
qed

text \<open>
  On the example store the window \<open>(100, 200)\<close> holds an outgoing edge and the maximum
  emitted is 10; the window \<open>(300, 400)\<close> holds none and both maxima are \<open>-1\<close>.
\<close>

theorem sentinel_iff_count_zero_witness:
  "fst (Process example_db example_request) =
     Returned True (Result \<lparr>sumEdge1Amount = 10, maxEdge1Amount = 10, numEdge1 = 1,
        sumEdge2Amount = - 7 / 2, maxEdge2Amount = 0, numEdge2 = 2\<rparr>) \<and>
   store_ordered 3 (out_edges example_db 0) \<and>
   open_window 100 200 3 (out_edges example_db 0) \<noteq> [] \<and>
   fst (Process example_db (Document (JObject [(''id'', JInteger 7), (''startTime'', JInteger 300),
      (''endTime'', JInteger 400)]))) =
     Returned True (Result \<lparr>sumEdge1Amount = 0, maxEdge1Amount = - 1, numEdge1 = 0,
        sumEdge2Amount = 0, maxEdge2Amount = - 1, numEdge2 = 0\<rparr>) \<and>
   open_window 300 400 3 (out_edges example_db 0) = []"
  using sentinel_iff_count_zero [OF example_Process]
    sentinel_iff_count_zero [OF example_late_Process]
  by (simp add: example_Process example_late_Process example_store_ordered example_open_window)

text \<open>
  C5. Scenario 1 of the spec: where the queried vertex has exactly the outgoing
  \<^verbatim>\<open>transfer\<close> edges at timestamps 100 (amount 5), 150 (amount 10) and 200 (amount 3),
  a query with the window \<open>(100, 200)\<close> succeeds with \<^verbatim>\<open>numEdge1\<close> 1,
  \<^verbatim>\<open>sumEdge1Amount\<close> 10 and \<^verbatim>\<open>maxEdge1Amount\<close> 10, whatever the account
  identifier, the vertex, the label identifier and the incoming edges are.
\<close>

theorem scenario_one:
  assumes "parse_request request = Inr (i, 100, 200)"
    and "unique_index db ACCOUNT_LABEL ACCOUNT_ID i = Some v"
    and "edge_label_ids db TRANSFER_LABEL = Some n"
    and "out_edges db v =
          [\<lparr>lid = of_nat n, tid = 100, timestamp = 100, amount = 5\<rparr>,
           \<lparr>lid = of_nat n, tid = 150, timestamp = 150, amount = 10\<rparr>,
           \<lparr>lid = of_nat n, tid = 200, timestamp = 200, amount = 3\<rparr>]"
  shows "\<exists>r. fst (Process db request) = Returned True (Result r) \<and>
           numEdge1 r = 1 \<and> sumEdge1Amount r = 10 \<and> maxEdge1Amount r = 10"
proof -
  have "counted_edges 100 200 (LabeledOutEdgeIterator db v (of_nat n) 100) =
          [\<lparr>lid = of_nat n, tid = 150, timestamp = 150, amount = 10\<rparr>]"
    by (simp add: counted_edges_def scanned_edges_def LabeledOutEdgeIterator_def
        GetOutEdgeIterator_def seek_nearest_def mk_LabeledEdgeIterator_def before_locator_def
        assms(4))
  then show ?thesis
    using Process_success [OF assms(1-3)] by (simp add: cpp_round_def)
qed

text \<open>
The example store and request are an instance of the scenario.
\<close>

theorem scenario_one_witness:
  "parse_request example_request = Inr (7, 100, 200) \<and>
   unique_index example_db ACCOUNT_LABEL ACCOUNT_ID 7 = Some 0 \<and>
   edge_label_ids example_db TRANSFER_LABEL = Some 3 \<and>
   (\<exists>r. fst (Process example_db example_request) = Returned True (Result r) \<and>
        numEdge1 r = 1 \<and> sumEdge1Amount r = 10 \<and> maxEdge1Amount r = 10)"
  using scenario_one [OF example_parse example_index example_label example_out_edges]
  by (simp add: example_parse example_index example_label)

text \<open>
  C6. The outgoing aggregates depend on the outgoing edges of the queried vertex only,
  and the incoming aggregates on its incoming edges only. Let the query succeed on a
  store, and let a second store resolve the account to the same vertex and the label
  \<^verbatim>\<open>transfer\<close> to the same identifier. If the two stores agree on the outgoing
  edges of the vertex (its incoming edges may differ in any way: permuted, duplicated
  or other), the query succeeds on the second store with the same outgoing sum, maximum
  and count; and the same holds with the directions exchanged.
\<close>

theorem directions_independent:
  assumes "fst (Process db request) = Returned True (Result r)"
    and "parse_request request = Inr (i, s, e)"
    and "unique_index db ACCOUNT_LABEL ACCOUNT_ID i = Some v"
    and "unique_index db' ACCOUNT_LABEL ACCOUNT_ID i = Some v"
    and "edge_label_ids db' TRANSFER_LABEL = edge_label_ids db TRANSFER_LABEL"
  shows "(out_edges db' v = out_edges db v \<longrightarrow>
           (\<exists>r'. fst (Process db' request) = Returned True (Result r') \<and>
                 sumEdge1Amount r' = sumEdge1Amount r \<and>
                 maxEdge1Amount r' = maxEdge1Amount r \<and>
                 numEdge1 r' = numEdge1 r)) \<and>
         (in_edges db' v = in_edges db v \<longrightarrow>
           (\<exists>r'. fst (Process db' request) = Returned True (Result r') \<and>
                 sumEdge2Amount r' = sumEdge2Amount r \<and>
                 maxEdge2Amount r' = maxEdge2Amount r \<and>
                 numEdge2 r' = numEdge2 r))"
proof -
  from assms(1) obtain i0 s0 e0 v0 n where
    p: "parse_request request = Inr (i0, s0, e0)"
    and u: "unique_index db ACCOUNT_LABEL ACCOUNT_ID i0 = Some v0"
    and l: "edge_label_ids db TRANSFER_LABEL = Some n"
    by (rule Process_Returned_True)
  from p assms(2) have eq: "i0 = i" "s0 = s" "e0 = e"
    by simp_all
  from u assms(3) eq have v: "v0 = v"
    by simp
  have l': "edge_label_ids db' TRANSFER_LABEL = Some n"
    using l assms(5) by simp
  have o: "LabeledOutEdgeIterator db' v (of_nat n) s = LabeledOutEdgeIterator db v (of_nat n) s"
    if "out_edges db' v = out_edges db v"
    using that by (simp add: LabeledOutEdgeIterator_def GetOutEdgeIterator_def)
  have i: "LabeledInEdgeIterator db' v (of_nat n) s = LabeledInEdgeIterator db v (of_nat n) s"
    if "in_edges db' v = in_edges db v"
    using that by (simp add: LabeledInEdgeIterator_def GetInEdgeIterator_def)
  show ?thesis
    using assms(1) Process_success [OF assms(2,3) l] Process_success [OF assms(2,4) l'] o i
    by auto
qed

text \<open>
  The example store with its incoming edges permuted and one of them duplicated gives the
  same outgoing aggregates; with its outgoing edges removed it gives the same incoming
  aggregates.
\<close>

theorem directions_independent_witness:
  "out_edges (example_db\<lparr>in_edges := (\<lambda>v. if v = 0 then
        [\<lparr>lid = 3, tid = 130, timestamp = 130, amount = - 3 / 2\<rparr>,
         \<lparr>lid = 3, tid = 120, timestamp = 120, amount = - 2\<rparr>,
         \<lparr>lid = 3, tid = 120, timestamp = 120, amount = - 2\<rparr>] else [])\<rparr>) 0 =
     out_edges example_db 0 \<and>
   (\<exists>r'. fst (Process (example_db\<lparr>in_edges := (\<lambda>v. if v = 0 then
        [\<lparr>lid = 3, tid = 130, timestamp = 130, amount = - 3 / 2\<rparr>,
         \<lparr>lid = 3, tid = 120, timestamp = 120, amount = - 2\<rparr>,
         \<lparr>lid = 3, tid = 120, timestamp = 120, amount = - 2\<rparr>] else [])\<rparr>) example_request) =
        Returned True (Result r') \<and>
      sumEdge1Amount r' = 10 \<and> maxEdge1Amount r' = 10 \<and> numEdge1 r' = 1) \<and>
   in_edges (example_db\<lparr>out_edges := (\<lambda>v. [])\<rparr>) 0 = in_edges example_db 0 \<and>
   (\<exists>r'. fst (Process (example_db\<lparr>out_edges := (\<lambda>v. [])\<rparr>) example_request) =
        Returned True (Result r') \<and>
      sumEdge2Amount r' = - 7 / 2 \<and> maxEdge2Amount r' = 0 \<and> numEdge2 r' = 2)"
  using directions_independent [OF example_Process example_parse example_index,
      of "example_db\<lparr>in_edges := (\<lambda>v. if v = 0 then
        [\<lparr>lid = 3, tid = 130, timestamp = 130, amount = - 3 / 2\<rparr>,
         \<lparr>lid = 3, tid = 120, timestamp = 120, amount = - 2\<rparr>,
         \<lparr>lid = 3, tid = 120, timestamp = 120, amount = - 2\<rparr>] else [])\<rparr>"]
    directions_independent [OF example_Process example_parse example_index,
      of "example_db\<lparr>out_edges := (\<lambda>v. [])\<rparr>"]
  by (simp add: example_index)

text \<open>
  C7. Where one of the fields \<^verbatim>\<open>id\<close>, \<^verbatim>\<open>startTime\<close>, \<^verbatim>\<open>endTime\<close> of the
  request is missing or malformed, \<^verbatim>\<open>Process\<close> returns false, the response is a
  message that starts with \<^verbatim>\<open>json parse error: \<close>, and no call has been issued
  against the store: no read transaction, no vertex, label or edge lookup.
\<close>

theorem parse_error_before_store_access:
  assumes "key \<in> {''id'', ''startTime'', ''endTime''}"
    and "\<not> well_formed_field key request"
  shows "\<exists>what. Process db request = (Returned False (Msg (''json parse error: '' @ what)), [])"
proof (cases "parse_request request")
  case (Inl what)
  then show ?thesis by (simp add: Process_parse_error)
next
  case (Inr t)
  from parse_request_Inr_fields [OF this] assms show ?thesis by auto
qed

text \<open>
Scenario 5 of the spec: a request without \<^verbatim>\<open>endTime\<close>.
\<close>

theorem parse_error_before_store_access_witness:
  "''endTime'' \<in> {''id'', ''startTime'', ''endTime''} \<and>
   \<not> well_formed_field ''endTime''
       (Document (JObject [(''id'', JInteger 7), (''startTime'', JInteger 100)])) \<and>
   Process example_db (Document (JObject [(''id'', JInteger 7), (''startTime'', JInteger 100)])) =
     (Returned False (Msg ''json parse error: missing field endTime''), [])"
  using parse_error_before_store_access
    [of "''endTime''" "Document (JObject [(''id'', JInteger 7), (''startTime'', JInteger 100)])"
        example_db]
  by (simp add: well_formed_field_def Process_def parse_request_def parse_from_json_def)

text \<open>
  C8. Where the request is well formed and its \<^verbatim>\<open>id\<close> matches no vertex under the
  unique index of \<^verbatim>\<open>Account\<close>, or the edge label \<^verbatim>\<open>transfer\<close> is not declared,
  the store's failure leaves \<^verbatim>\<open>Process\<close> as an exception: a missing vertex first,
  a missing label otherwise. \<^verbatim>\<open>Process\<close> does not return, and no result record is
  emitted.
\<close>

theorem lookup_failure_propagates:
  assumes "parse_request request = Inr (i, s, e)"
    and "unique_index db ACCOUNT_LABEL ACCOUNT_ID i = None \<or> edge_label_ids db TRANSFER_LABEL = None"
  shows "fst (Process db request) =
           Thrown (if unique_index db ACCOUNT_LABEL ACCOUNT_ID i = None then VertexNotFound
                   else LabelNotFound) \<and>
         (\<forall>b r. fst (Process db request) \<noteq> Returned b (Result r))"
proof (cases "unique_index db ACCOUNT_LABEL ACCOUNT_ID i")
  case None
  then show ?thesis
    using assms(1) by (simp add: Process_vertex_not_found)
next
  case (Some v)
  with assms(2) have "edge_label_ids db TRANSFER_LABEL = None" by simp
  with Some show ?thesis
    using assms(1) by (simp add: Process_label_not_found)
qed

text \<open>
  Scenario 4 of the spec: account 8 is not in the example store. And the example store
  without its edge labels fails on the label.
\<close>

theorem lookup_failure_propagates_witness:
  "parse_request (Document (JObject [(''id'', JInteger 8), (''startTime'', JInteger 100),
      (''endTime'', JInteger 200)])) = Inr (8, 100, 200) \<and>
   unique_index example_db ACCOUNT_LABEL ACCOUNT_ID 8 = None \<and>
   fst (Process example_db (Document (JObject [(''id'', JInteger 8), (''startTime'', JInteger 100),
      (''endTime'', JInteger 200)]))) = Thrown VertexNotFound \<and>
   parse_request example_request = Inr (7, 100, 200) \<and>
   edge_label_ids (example_db\<lparr>edge_label_ids := Map.empty\<rparr>) TRANSFER_LABEL = None \<and>
   fst (Process (example_db\<lparr>edge_label_ids := Map.empty\<rparr>) example_request) = Thrown LabelNotFound"
proof -
  have p: "parse_request (Document (JObject [(''id'', JInteger 8), (''startTime'', JInteger 100),
      (''endTime'', JInteger 200)])) = Inr (8, 100, 200)"
    by (simp add: parse_request_def parse_from_json_def)
  have u: "unique_index example_db ACCOUNT_LABEL ACCOUNT_ID 8 = None"
    by (simp add: example_db_def)
  have u7: "unique_index (example_db\<lparr>edge_label_ids := Map.empty\<rparr>) ACCOUNT_LABEL ACCOUNT_ID 7 = Some 0"
    by (simp add: example_index)
  have l: "edge_label_ids (example_db\<lparr>edge_label_ids := Map.empty\<rparr>) TRANSFER_LABEL = None"
    by simp
  show ?thesis
    using lookup_failure_propagates [OF p disjI1 [OF u]]
      lookup_failure_propagates [OF example_parse disjI2 [OF l]]
    by (simp add: p u u7 example_parse example_index)
qed

text \<open>
  C9. \<^verbatim>\<open>LabeledEdgeIterator::Next\<close> is a one-way filter. On an iterator that is
  already invalid it returns false and leaves the iterator, its cursor included, as it
  was. On a valid iterator it moves the cursor one position on, sets the validity to
  whether the cursor is now on an edge of the label, and returns that validity. Once an
  iterator is invalid, it is invalid after any number of further calls of
  \<^verbatim>\<open>Next\<close>.
\<close>

theorem Next_monotonic_filter:
  "(\<not> IsValid it \<longrightarrow> Next it = (False, it)) \<and>
   (IsValid it \<longrightarrow>
      snd (Next it) =
        it\<lparr>pos := pos it + 1,
           m_valid := (pos it + 1 < length (edges it) \<and>
                       lid (edges it ! (pos it + 1)) = m_lid it)\<rparr> \<and>
      fst (Next it) = IsValid (snd (Next it))) \<and>
   (\<not> IsValid it \<longrightarrow> (\<forall>n. \<not> IsValid (((\<lambda>i. snd (Next i)) ^^ n) it)))"
  by (simp add: IsValid_def Next_invalid Next_valid Next_iter_invalid label_matches_iff)

text \<open>
  An invalid iterator over one edge stays as it is, also after three calls; a valid one
  on the last edge of label 1 steps onto an edge of label 2 and becomes invalid.
\<close>

theorem Next_monotonic_filter_witness:
  "\<not> IsValid \<lparr>edges = [\<lparr>lid = 1, tid = 5, timestamp = 5, amount = 2\<rparr>],
              pos = 0, m_lid = 1, m_valid = False\<rparr> \<and>
   Next \<lparr>edges = [\<lparr>lid = 1, tid = 5, timestamp = 5, amount = 2\<rparr>],
         pos = 0, m_lid = 1, m_valid = False\<rparr> =
     (False, \<lparr>edges = [\<lparr>lid = 1, tid = 5, timestamp = 5, amount = 2\<rparr>],
              pos = 0, m_lid = 1, m_valid = False\<rparr>) \<and>
   \<not> IsValid (((\<lambda>i. snd (Next i)) ^^ 3)
       \<lparr>edges = [\<lparr>lid = 1, tid = 5, timestamp = 5, amount = 2\<rparr>],
        pos = 0, m_lid = 1, m_valid = False\<rparr>) \<and>
   IsValid \<lparr>edges = [\<lparr>lid = 1, tid = 5, timestamp = 5, amount = 2\<rparr>,
                     \<lparr>lid = 2, tid = 1, timestamp = 1, amount = 4\<rparr>],
            pos = 0, m_lid = 1, m_valid = True\<rparr> \<and>
   Next \<lparr>edges = [\<lparr>lid = 1, tid = 5, timestamp = 5, amount = 2\<rparr>,
                  \<lparr>lid = 2, tid = 1, timestamp = 1, amount = 4\<rparr>],
         pos = 0, m_lid = 1, m_valid = True\<rparr> =
     (False, \<lparr>edges = [\<lparr>lid = 1, tid = 5, timestamp = 5, amount = 2\<rparr>,
                       \<lparr>lid = 2, tid = 1, timestamp = 1, amount = 4\<rparr>],
              pos = 1, m_lid = 1, m_valid = False\<rparr>)"
  using Next_monotonic_filter
     [of "\<lparr>edges = [\<lparr>lid = 1, tid = 5, timestamp = 5, amount = 2\<rparr>],
          pos = 0, m_lid = 1, m_valid = False\<rparr>"]
    Next_monotonic_filter
     [of "\<lparr>edges = [\<lparr>lid = 1, tid = 5, timestamp = 5, amount = 2\<rparr>,
                   \<lparr>lid = 2, tid = 1, timestamp = 1, amount = 4\<rparr>],
          pos = 0, m_lid = 1, m_valid = True\<rparr>"]
  by (simp add: IsValid_def prod_eq_iff)

text \<open>
  C10. For a successful query in which a direction has counted at least one edge and
  every amount counted in that direction is negative, the maximum emitted for that
  direction is 0: the running maximum starts at 0 and only a greater amount replaces it.
  The edges counted are those the loop accumulates; where the edges of the direction are
  in storage order they are the edges of the label inside the open window, and the same
  holds for these.
\<close>

theorem negative_amounts_max_zero:
  assumes "fst (Process db request) = Returned True (Result r)"
    and "parse_request request = Inr (i, s, e)"
    and "unique_index db ACCOUNT_LABEL ACCOUNT_ID i = Some v"
    and "edge_label_ids db TRANSFER_LABEL = Some n"
  shows "(0 < numEdge1 r \<and>
            (\<forall>x\<in>set (counted_edges s e (LabeledOutEdgeIterator db v (of_nat n) s)). amount x < 0)
          \<longrightarrow> maxEdge1Amount r = 0) \<and>
         (0 < numEdge2 r \<and>
            (\<forall>x\<in>set (counted_edges s e (LabeledInEdgeIterator db v (of_nat n) s)). amount x < 0)
          \<longrightarrow> maxEdge2Amount r = 0) \<and>
         (store_ordered (of_nat n) (out_edges db v) \<and> 0 < numEdge1 r \<and>
            (\<forall>x\<in>set (open_window s e (of_nat n) (out_edges db v)). amount x < 0)
          \<longrightarrow> maxEdge1Amount r = 0) \<and>
         (store_ordered (of_nat n) (in_edges db v) \<and> 0 < numEdge2 r \<and>
            (\<forall>x\<in>set (open_window s e (of_nat n) (in_edges db v)). amount x < 0)
          \<longrightarrow> maxEdge2Amount r = 0)"
proof -
  let ?co = "counted_edges s e (LabeledOutEdgeIterator db v (of_nat n) s)"
  let ?ci = "counted_edges s e (LabeledInEdgeIterator db v (of_nat n) s)"
  have n1: "numEdge1 r = int (length ?co)" and n2: "numEdge2 r = int (length ?ci)"
    and m1: "maxEdge1Amount r =
      (if ?co = [] then - 1 else cpp_round (fold max (map amount ?co) 0 * 1000) / 1000)"
    and m2: "maxEdge2Amount r =
      (if ?ci = [] then - 1 else cpp_round (fold max (map amount ?ci) 0 * 1000) / 1000)"
    using assms(1) Process_success [OF assms(2-4)] by auto
  have z: "cpp_round (fold max (map amount xs) 0 * 1000) / 1000 = 0"
    if "\<forall>x\<in>set xs. amount x < 0" for xs :: "edge list"
  proof -
    have "fold max (map amount xs) 0 = 0"
      using that by (intro fold_max_neg) auto
    then show ?thesis by (simp add: cpp_round_0)
  qed
  have a: "0 < numEdge1 r \<and> (\<forall>x\<in>set ?co. amount x < 0) \<longrightarrow> maxEdge1Amount r = 0"
    using z [of ?co] by (auto simp: m1 n1)
  have b: "0 < numEdge2 r \<and> (\<forall>x\<in>set ?ci. amount x < 0) \<longrightarrow> maxEdge2Amount r = 0"
    using z [of ?ci] by (auto simp: m2 n2)
  have o: "?co = open_window s e (of_nat n) (out_edges db v)" if "store_ordered (of_nat n) (out_edges db v)"
    using counted_edges_open_window [OF that]
    by (simp add: LabeledOutEdgeIterator_def GetOutEdgeIterator_def)
  have i: "?ci = open_window s e (of_nat n) (in_edges db v)" if "store_ordered (of_nat n) (in_edges db v)"
    using counted_edges_open_window [OF that]
    by (simp add: LabeledInEdgeIterator_def GetInEdgeIterator_def)
  show ?thesis
    using a b o i by metis
qed

text \<open>
  The two incoming edges of the example store, with amounts \<open>-2\<close> and \<open>-3/2\<close>, lie
  in the window: two edges are counted and the maximum emitted is 0.
\<close>

theorem negative_amounts_max_zero_witness:
  "(\<exists>r. fst (Process example_db example_request) = Returned True (Result r) \<and>
        0 < numEdge2 r \<and> maxEdge2Amount r = 0) \<and>
   counted_edges 100 200 (LabeledInEdgeIterator example_db 0 3 100) =
     [\<lparr>lid = 3, tid = 120, timestamp = 120, amount = - 2\<rparr>,
      \<lparr>lid = 3, tid = 130, timestamp = 130, amount = - 3 / 2\<rparr>] \<and>
   store_ordered 3 (in_edges example_db 0) \<and>
   open_window 100 200 3 (in_edges example_db 0) =
     [\<lparr>lid = 3, tid = 120, timestamp = 120, amount = - 2\<rparr>,
      \<lparr>lid = 3, tid = 130, timestamp = 130, amount = - 3 / 2\<rparr>]"
proof -
  have w: "open_window 100 200 3 (in_edges example_db 0) =
     [\<lparr>lid = 3, tid = 120, timestamp = 120, amount = - 2\<rparr>,
      \<lparr>lid = 3, tid = 130, timestamp = 130, amount = - 3 / 2\<rparr>]"
    by (simp add: open_window_def example_db_def)
  show ?thesis
    using negative_amounts_max_zero [OF example_Process example_parse example_index example_label]
    by (simp add: example_Process example_counted_in example_store_ordered w)
qed

end
